theory Spec2Isabelle
  imports Complex_Main "HOL-Library.Word"
begin

section \<open>Values of the host language\<close>

text \<open>
  The source is TypeScript (\<^verbatim>\<open>src/server/concepts/location.ts\<close>, which holds both
  \<^verbatim>\<open>LocationConcept\<close> and \<^verbatim>\<open>EventConcept\<close>). A JavaScript number is modelled as a
  real: the code never computes with numbers, it stores them and hands them on.
  A MongoDB \<^verbatim>\<open>ObjectId\<close> holds 12 bytes, which is what the collection stores and what
  \<^verbatim>\<open>toString\<close> prints. In memory it is an object (see \<open>ObjectIdObject\<close> below).
\<close>

type_synonym number = real

type_synonym ObjectId = "96 word"

datatype error =
    NotFoundError string
  | NotAllowedError string
  | EventHostNotMatchError ObjectId ObjectId
  | TypeError string
  | NetworkError string

text \<open>\<^verbatim>\<open>EventHostNotMatchError\<close> is a subclass of \<^verbatim>\<open>NotAllowedError\<close> in the source.\<close>

subsection \<open>\<^verbatim>\<open>ObjectId.toString\<close>: 24 lower-case hexadecimal digits\<close>

definition hex_char :: "nat \<Rightarrow> char" where
  "hex_char n = ''0123456789abcdef'' ! (n mod 16)"

fun hex_digits :: "nat \<Rightarrow> nat \<Rightarrow> string" where
  "hex_digits 0 v = []"
| "hex_digits (Suc n) v = hex_digits n (v div 16) @ [hex_char v]"

definition toString :: "ObjectId \<Rightarrow> string" where
  "toString i = hex_digits 24 (unat i)"

subsection \<open>Array and string methods\<close>

text \<open>
  \<^verbatim>\<open>Array.prototype.indexOf\<close> gives the first index of the element, or \<open>-1\<close>;
  \<^verbatim>\<open>indexOf\<close> and \<^verbatim>\<open>includes\<close> compare strings by their characters and objects by
  identity, which is the equality of the element type here.
  \<^verbatim>\<open>Array.prototype.splice(start, deleteCount)\<close> counts a negative \<open>start\<close> from the
  end of the array (so \<open>splice(-1, 1)\<close> deletes the last element) and deletes nothing
  when \<open>start\<close> is at or beyond the length.
\<close>

primrec indexOf :: "'a list \<Rightarrow> 'a \<Rightarrow> int" where
  "indexOf [] x = - 1"
| "indexOf (y # ys) x =
     (if y = x then 0
      else (let i = indexOf ys x in if i = - 1 then - 1 else i + 1))"

definition array_includes :: "'a list \<Rightarrow> 'a \<Rightarrow> bool" where
  "array_includes xs x = (x \<in> set xs)"

definition push :: "'a list \<Rightarrow> 'a \<Rightarrow> 'a list" where
  "push xs x = xs @ [x]"

definition array_splice :: "'a list \<Rightarrow> int \<Rightarrow> nat \<Rightarrow> 'a list" where
  "array_splice xs start deleteCount =
     (let len = int (length xs);
          s = nat (if start < 0 then max (len + start) 0 else min start len)
      in take s xs @ drop (s + deleteCount) xs)"

text \<open>\<^verbatim>\<open>String.prototype.includes\<close>: does the argument occur as a substring.\<close>

fun string_includes :: "string \<Rightarrow> string \<Rightarrow> bool" where
  "string_includes [] t = (t = [])"
| "string_includes (c # s) t =
     (if take (length t) (c # s) = t then True else string_includes s t)"

subsection \<open>\<^verbatim>\<open>encodeURIComponent\<close>\<close>

text \<open>A string is its UTF-8 bytes; every byte outside the unreserved set becomes \<open>%XX\<close>.\<close>

definition uri_unreserved :: "char \<Rightarrow> bool" where
  "uri_unreserved c =
     (c \<in> set (''ABCDEFGHIJKLMNOPQRSTUVWXYZabcdefghijklmnopqrstuvwxyz0123456789-_.!~*()''
               @ [CHR 0x27]))"

definition HEX_char :: "nat \<Rightarrow> char" where
  "HEX_char n = ''0123456789ABCDEF'' ! (n mod 16)"

definition encodeURIComponent :: "string \<Rightarrow> string" where
  "encodeURIComponent s =
     concat (map (\<lambda>c. if uri_unreserved c then [c]
                      else [CHR ''%'', HEX_char (of_char c div 16), HEX_char (of_char c)]) s)"

subsection \<open>Parsed JSON and property access\<close>

datatype jsval =
    JUndefined
  | JNull
  | JBool bool
  | JNum number
  | JStr string
  | JArr "jsval list"
  | JObj "(string \<times> jsval) list"

text \<open>
  \<open>v.k\<close>: a \<^verbatim>\<open>TypeError\<close> on \<^verbatim>\<open>undefined\<close> and \<^verbatim>\<open>null\<close>, the value of the key on an
  object (\<^verbatim>\<open>undefined\<close> when the key is missing), the length of an array or a string.
\<close>

fun get_prop :: "jsval \<Rightarrow> string \<Rightarrow> error + jsval" where
  "get_prop JUndefined k = Inl (TypeError (''Cannot read properties of undefined''))"
| "get_prop JNull k = Inl (TypeError (''Cannot read properties of null''))"
| "get_prop (JObj kvs) k = Inr (case map_of kvs k of None \<Rightarrow> JUndefined | Some v \<Rightarrow> v)"
| "get_prop (JArr xs) k = Inr (if k = ''length'' then JNum (real (length xs)) else JUndefined)"
| "get_prop (JStr s) k = Inr (if k = ''length'' then JNum (real (length s)) else JUndefined)"
| "get_prop (JBool b) k = Inr JUndefined"
| "get_prop (JNum n) k = Inr JUndefined"

text \<open>\<open>v[0]\<close>.\<close>

fun get_index0 :: "jsval \<Rightarrow> error + jsval" where
  "get_index0 JUndefined = Inl (TypeError (''Cannot read properties of undefined''))"
| "get_index0 JNull = Inl (TypeError (''Cannot read properties of null''))"
| "get_index0 (JArr xs) = Inr (case xs of [] \<Rightarrow> JUndefined | x # rest \<Rightarrow> x)"
| "get_index0 (JStr s) = Inr (case s of [] \<Rightarrow> JUndefined | c # rest \<Rightarrow> JStr [c])"
| "get_index0 (JObj kvs) = Inr (case map_of kvs ''0'' of None \<Rightarrow> JUndefined | Some v \<Rightarrow> v)"
| "get_index0 (JBool b) = Inr JUndefined"
| "get_index0 (JNum n) = Inr JUndefined"

section \<open>\<^verbatim>\<open>LocationConcept\<close>\<close>

text \<open>
  \<^verbatim>\<open>getAddressLocation\<close>. The network is a parameter: \<open>fetch_json url\<close> is the outcome
  of \<^verbatim>\<open>fetch(url)\<close> followed by \<^verbatim>\<open>response.json()\<close>, either the parsed body or the
  error either of them raised. \<open>myAPIKey\<close> is \<^verbatim>\<open>process.env.GOOGLE_API_KEY\<close>, which a
  template literal prints as \<^verbatim>\<open>undefined\<close> when it is not set.
\<close>

definition geocodingUrl :: "string option \<Rightarrow> string \<Rightarrow> string" where
  "geocodingUrl myAPIKey address =
     ''https://maps.googleapis.com/maps/api/geocode/json?address=''
       @ encodeURIComponent address @ ''&key=''
       @ (case myAPIKey of None \<Rightarrow> ''undefined'' | Some k \<Rightarrow> k)"

definition getAddressLocation ::
  "(string \<Rightarrow> error + jsval) \<Rightarrow> string option \<Rightarrow> string \<Rightarrow> error + jsval" where
  "getAddressLocation fetch_json myAPIKey address =
     (case fetch_json (geocodingUrl myAPIKey address) of
        Inl e \<Rightarrow> Inl e
      | Inr results \<Rightarrow>
          (case get_prop results ''results'' of
             Inl e \<Rightarrow> Inl e
           | Inr candidates \<Rightarrow>
               (case get_prop candidates ''length'' of
                  Inl e \<Rightarrow> Inl e
                | Inr len \<Rightarrow>
                    if len = JNum 0 then Inl (NotFoundError ''Address Not Found'')
                    else
                      (case get_index0 candidates of
                         Inl e \<Rightarrow> Inl e
                       | Inr first \<Rightarrow>
                           (case get_prop first ''geometry'' of
                              Inl e \<Rightarrow> Inl e
                            | Inr geometry \<Rightarrow> get_prop geometry ''location'')))))"

text \<open>A provider stub that answers every request with the same body.\<close>

definition stub_provider :: "jsval \<Rightarrow> string \<Rightarrow> error + jsval" where
  "stub_provider body url = Inr body"

definition candidate :: "number \<Rightarrow> number \<Rightarrow> jsval" where
  "candidate y x =
     JObj [(''geometry'', JObj [(''location'', JObj [(''lat'', JNum y), (''lng'', JNum x)])])]"

section \<open>\<^verbatim>\<open>EventConcept\<close>: documents and the collection\<close>

record EventDoc =
  host :: ObjectId
  title :: string
  description :: string
  location :: string
  ageReq :: number
  capacity :: number
  topics :: "string list"
  amenities :: "string list"
  accommodations :: "string list"
  interested :: "ObjectId list"
  attending :: "ObjectId list"

text \<open>
  \<^verbatim>\<open>Partial<EventDoc>\<close>: the keys of the object in enumeration order, each with its value.
\<close>

datatype field_value =
    VId ObjectId
  | VStr string
  | VNum number
  | VStrs "string list"
  | VIds "ObjectId list"
  | VUndefined

type_synonym partial_doc = "(string \<times> field_value) list"

text \<open>
  Modelled from the spec: \<^verbatim>\<open>DocCollection\<close> (\<^verbatim>\<open>../framework/doc\<close>) is not part of the
  sources. The spec describes it as a document collection keyed by opaque id with
  \<^verbatim>\<open>createOne(fields)->id\<close>, \<^verbatim>\<open>readOne(filter)->record|absent\<close>,
  \<^verbatim>\<open>updateOne(filter, partialFields)->ack\<close> (a field-level merge) and
  \<^verbatim>\<open>deleteOne(filter)->ack\<close>. Every filter the concept uses is \<^verbatim>\<open>{ _id }\<close>, so the
  collection is a map from ids to documents, with a counter for the ids it hands out.
  \<^verbatim>\<open>updateOne\<close> and \<^verbatim>\<open>deleteOne\<close> acknowledge whether or not a document matched.
\<close>

record collection =
  docs :: "ObjectId \<rightharpoonup> EventDoc"
  next_id :: ObjectId

definition empty_collection :: collection where
  "empty_collection = \<lparr>docs = Map.empty, next_id = 0\<rparr>"

definition createOne :: "collection \<Rightarrow> EventDoc \<Rightarrow> ObjectId \<times> collection" where
  "createOne c item =
     (next_id c, c\<lparr>docs := (docs c)(next_id c \<mapsto> item), next_id := next_id c + 1\<rparr>)"

definition readOne :: "collection \<Rightarrow> ObjectId \<Rightarrow> EventDoc option" where
  "readOne c eid = docs c eid"

fun set_field :: "EventDoc \<Rightarrow> string \<times> field_value \<Rightarrow> EventDoc" where
  "set_field d (k, VId v) = (if k = ''host'' then d\<lparr>host := v\<rparr> else d)"
| "set_field d (k, VStr v) =
     (if k = ''title'' then d\<lparr>title := v\<rparr>
      else if k = ''description'' then d\<lparr>description := v\<rparr>
      else if k = ''location'' then d\<lparr>location := v\<rparr>
      else d)"
| "set_field d (k, VNum v) =
     (if k = ''ageReq'' then d\<lparr>ageReq := v\<rparr>
      else if k = ''capacity'' then d\<lparr>capacity := v\<rparr>
      else d)"
| "set_field d (k, VStrs v) =
     (if k = ''topics'' then d\<lparr>topics := v\<rparr>
      else if k = ''amenities'' then d\<lparr>amenities := v\<rparr>
      else if k = ''accommodations'' then d\<lparr>accommodations := v\<rparr>
      else d)"
| "set_field d (k, VIds v) =
     (if k = ''interested'' then d\<lparr>interested := v\<rparr>
      else if k = ''attending'' then d\<lparr>attending := v\<rparr>
      else d)"
| "set_field d (k, VUndefined) = d"

definition updateOne :: "collection \<Rightarrow> ObjectId \<Rightarrow> partial_doc \<Rightarrow> collection" where
  "updateOne c eid upd =
     (case docs c eid of
        None \<Rightarrow> c
      | Some d \<Rightarrow> c\<lparr>docs := (docs c)(eid \<mapsto> foldl set_field d upd)\<rparr>)"

definition deleteOne :: "collection \<Rightarrow> ObjectId \<Rightarrow> collection" where
  "deleteOne c eid = c\<lparr>docs := (docs c)(eid := None)\<rparr>"

subsection \<open>\<^verbatim>\<open>ObjectId\<close> objects in memory\<close>

text \<open>
  Modelled from the spec: \<^verbatim>\<open>DocCollection.readOne\<close> returns plain data, with no object
  shared between the store and a caller. The arrays \<^verbatim>\<open>event.interested\<close> and
  \<^verbatim>\<open>event.attending\<close> that a method holds after a read therefore consist of \<^verbatim>\<open>ObjectId\<close>
  objects made while the answer was decoded, one for each entry, and none of them is
  the object the caller passed as \<^verbatim>\<open>person\<close>, whatever bytes it holds.

  An object is given by where it was made and by its bytes: \<open>Passed v\<close> is the caller's
  argument, \<open>Decoded f i v\<close> the object made for entry \<open>i\<close> of the array field \<open>f\<close> of the
  document read. Every method compares its argument with the entries of the one
  document it has read itself, so objects of two reads never meet. Two objects are
  the same object exactly when they are equal in this type. A write stores the bytes.
\<close>

datatype ObjectIdObject =
    Passed ObjectId
  | Decoded string nat ObjectId

fun bytes_of :: "ObjectIdObject \<Rightarrow> ObjectId" where
  "bytes_of (Passed v) = v"
| "bytes_of (Decoded f i v) = v"

definition decoded :: "string \<Rightarrow> ObjectId list \<Rightarrow> ObjectIdObject list" where
  "decoded f vs = map (\<lambda>(i, v). Decoded f i v) (enumerate 0 vs)"

section \<open>\<^verbatim>\<open>EventConcept\<close>: the operations\<close>

text \<open>
  An \<^verbatim>\<open>async\<close> method is a function of the collection that returns its outcome (\<open>Inl\<close>
  the error its promise rejects with, \<open>Inr\<close> the value it resolves to) and the
  collection afterwards. A guard only reads, so it returns its outcome alone.

  \<open>unawaited p rest\<close> is a call whose promise \<open>p\<close> is neither awaited nor returned,
  as in \<^verbatim>\<open>this.isNotHost(person, _id);\<close>: the caller goes on with \<open>rest\<close> whatever \<open>p\<close>
  settles to, and a rejection of \<open>p\<close> never becomes a rejection of the caller.
  What the runtime does with a rejection that nobody handles is outside this model.
  The writes \<^verbatim>\<open>this.events.updateOne(...)\<close> of the mutators are not awaited either; the
  write is issued all the same, and operations are taken one after the other, each
  seeing the writes of the ones before.
\<close>

definition unawaited :: "error + 'a \<Rightarrow> 'b \<Rightarrow> 'b" where
  "unawaited p rest = rest"

definition event_missing :: "ObjectId \<Rightarrow> error" where
  "event_missing eid = NotFoundError (''Event '' @ toString eid @ '' does not exist!'')"

definition create ::
  "ObjectId \<Rightarrow> string \<Rightarrow> string \<Rightarrow> string \<Rightarrow> number \<Rightarrow> number \<Rightarrow> collection
     \<Rightarrow> (string \<times> EventDoc option) \<times> collection" where
  "create h t d l a cap c =
     (case createOne c \<lparr>host = h, title = t, description = d, location = l, ageReq = a,
                        capacity = cap, topics = [], amenities = [], accommodations = [],
                        interested = [], attending = []\<rparr> of
        (eid, c') \<Rightarrow> ((''Event successfully created!'', readOne c' eid), c'))"

definition prohibitedUpdates :: "string list" where
  "prohibitedUpdates = [''host'']"

fun sanitizeUpdate :: "partial_doc \<Rightarrow> error + unit" where
  "sanitizeUpdate [] = Inr ()"
| "sanitizeUpdate ((key, v) # rest) =
     (if array_includes prohibitedUpdates key
      then Inl (NotAllowedError (''Cannot update '' @ [CHR 0x27] @ key @ [CHR 0x27] @ '' field!''))
      else sanitizeUpdate rest)"

definition update :: "ObjectId \<Rightarrow> partial_doc \<Rightarrow> collection \<Rightarrow> (error + string) \<times> collection" where
  "update eid upd c =
     (case sanitizeUpdate upd of
        Inl e \<Rightarrow> (Inl e, c)
      | Inr u \<Rightarrow> (Inr ''Event successfully updated!'', updateOne c eid upd))"

definition delete :: "ObjectId \<Rightarrow> collection \<Rightarrow> (error + string) \<times> collection" where
  "delete eid c = (Inr ''Event deleted successfully!'', deleteOne c eid)"

definition isHost :: "collection \<Rightarrow> ObjectId \<Rightarrow> ObjectId \<Rightarrow> error + unit" where
  "isHost c h eid =
     (case readOne c eid of
        None \<Rightarrow> Inl (event_missing eid)
      | Some event \<Rightarrow>
          if toString (host event) \<noteq> toString h then Inl (EventHostNotMatchError h eid)
          else Inr ())"

definition isNotHost :: "collection \<Rightarrow> ObjectId \<Rightarrow> ObjectId \<Rightarrow> error + unit" where
  "isNotHost c h eid =
     (case readOne c eid of
        None \<Rightarrow> Inl (event_missing eid)
      | Some event \<Rightarrow>
          if toString (host event) \<noteq> toString h then Inl (NotAllowedError ''Person is a host.'')
          else Inr ())"

definition isInterested :: "collection \<Rightarrow> ObjectId \<Rightarrow> ObjectId \<Rightarrow> error + unit" where
  "isInterested c person eid =
     (case readOne c eid of
        None \<Rightarrow> Inl (event_missing eid)
      | Some event \<Rightarrow>
          if \<not> array_includes (decoded ''interested'' (interested event)) (Passed person)
          then Inl (NotFoundError ''Person not interested in event.'')
          else Inr ())"

definition isNotInterested :: "collection \<Rightarrow> ObjectId \<Rightarrow> ObjectId \<Rightarrow> error + unit" where
  "isNotInterested c person eid =
     (case readOne c eid of
        None \<Rightarrow> Inl (event_missing eid)
      | Some event \<Rightarrow>
          if array_includes (decoded ''interested'' (interested event)) (Passed person)
          then Inl (NotFoundError ''Person already interested in event.'')
          else Inr ())"

definition isAttending :: "collection \<Rightarrow> ObjectId \<Rightarrow> ObjectId \<Rightarrow> error + unit" where
  "isAttending c person eid =
     (case readOne c eid of
        None \<Rightarrow> Inl (event_missing eid)
      | Some event \<Rightarrow>
          if \<not> array_includes (decoded ''attending'' (attending event)) (Passed person)
          then Inl (NotFoundError ''Person not attending event.'')
          else Inr ())"

definition isNotAttending :: "collection \<Rightarrow> ObjectId \<Rightarrow> ObjectId \<Rightarrow> error + unit" where
  "isNotAttending c person eid =
     (case readOne c eid of
        None \<Rightarrow> Inl (event_missing eid)
      | Some event \<Rightarrow>
          if array_includes (decoded ''attending'' (attending event)) (Passed person)
          then Inl (NotFoundError ''Person is already attending event.'')
          else Inr ())"

text \<open>
  The RSVP mutators. The arrays \<^verbatim>\<open>interested\<close> and \<^verbatim>\<open>attending\<close> of the document read are
  changed in place and both written back; \<open>interested0\<close>, \<open>attending0\<close> are the arrays as
  read, \<open>interested1\<close>, \<open>attending1\<close>, \<open>attending2\<close> their successive contents.
\<close>

definition rsvp_write ::
  "collection \<Rightarrow> ObjectId \<Rightarrow> ObjectIdObject list \<Rightarrow> ObjectIdObject list \<Rightarrow> collection" where
  "rsvp_write c eid interested1 attending1 =
     updateOne c eid [(''interested'', VIds (map bytes_of interested1)),
                      (''attending'', VIds (map bytes_of attending1))]"

definition indicateInterest :: "ObjectId \<Rightarrow> ObjectId \<Rightarrow> collection \<Rightarrow> (error + string) \<times> collection" where
  "indicateInterest person eid c =
     unawaited (isNotHost c person eid)
       (case readOne c eid of
          None \<Rightarrow> (Inl (NotFoundError ''Event does not exist.''), c)
        | Some event \<Rightarrow>
            (let interested0 = decoded ''interested'' (interested event);
                 attending0 = decoded ''attending'' (attending event);
                 interested1 = push interested0 (Passed person);
                 attend_idx = indexOf attending0 (Passed person);
                 attending1 = (if attend_idx \<noteq> - 1 then array_splice attending0 attend_idx 1
                               else attending0)
             in (Inr ''Successfully indicated interest in event.'',
                 rsvp_write c eid interested1 attending1)))"

definition removeInterest :: "ObjectId \<Rightarrow> ObjectId \<Rightarrow> collection \<Rightarrow> (error + string) \<times> collection" where
  "removeInterest person eid c =
     unawaited (isNotHost c person eid)
       (unawaited (isInterested c person eid)
          (case readOne c eid of
             None \<Rightarrow> (Inl (NotFoundError ''Event does not exist.''), c)
           | Some event \<Rightarrow>
               (let interested0 = decoded ''interested'' (interested event);
                    attending0 = decoded ''attending'' (attending event);
                    interest_idx = indexOf interested0 (Passed person);
                    interested1 = array_splice interested0 interest_idx 1;
                    attend_idx = indexOf attending0 (Passed person);
                    attending1 = (if attend_idx \<noteq> - 1 then array_splice attending0 attend_idx 1
                                  else attending0)
                in (Inr ''Successfully removed interest in event.'',
                    rsvp_write c eid interested1 attending1))))"

definition indicateAttendance :: "ObjectId \<Rightarrow> ObjectId \<Rightarrow> collection \<Rightarrow> (error + string) \<times> collection" where
  "indicateAttendance person eid c =
     unawaited (isNotHost c person eid)
       (case readOne c eid of
          None \<Rightarrow> (Inl (NotFoundError ''Event does not exist.''), c)
        | Some event \<Rightarrow>
            (let interested0 = decoded ''interested'' (interested event);
                 attending0 = decoded ''attending'' (attending event);
                 attending1 = push attending0 (Passed person);
                 interest_idx = indexOf interested0 (Passed person);
                 attending2 = (if interest_idx \<noteq> - 1 then array_splice attending1 interest_idx 1
                               else attending1)
             in (Inr ''Successfully indicated attendance for event.'',
                 rsvp_write c eid interested0 attending2)))"

definition removeAttendance :: "ObjectId \<Rightarrow> ObjectId \<Rightarrow> collection \<Rightarrow> (error + string) \<times> collection" where
  "removeAttendance person eid c =
     unawaited (isNotHost c person eid)
       (unawaited (isAttending c person eid)
          (case readOne c eid of
             None \<Rightarrow> (Inl (NotFoundError ''Event does not exist.''), c)
           | Some event \<Rightarrow>
               (let interested0 = decoded ''interested'' (interested event);
                    attending0 = decoded ''attending'' (attending event);
                    attend_idx = indexOf attending0 (Passed person);
                    attending1 = push attending0 (Passed person);
                    interest_idx = indexOf interested0 (Passed person);
                    attending2 = (if interest_idx \<noteq> - 1 then array_splice attending1 interest_idx 1
                                  else attending1)
                in (Inr ''Successfully removed attendance for event.'',
                    rsvp_write c eid interested0 attending2))))"

text \<open>The tag mutators.\<close>

definition addTopic :: "ObjectId \<Rightarrow> string \<Rightarrow> collection \<Rightarrow> (error + string) \<times> collection" where
  "addTopic eid topic c =
     (case readOne c eid of
        None \<Rightarrow> (Inl (NotFoundError ''Event does not exist.''), c)
      | Some event \<Rightarrow>
          if string_includes topic topic then (Inl (NotAllowedError ''Topic already exists.''), c)
          else (Inr ''Successfully added topic to event.'',
                updateOne c eid [(''topics'', VStrs (push (topics event) topic))]))"

definition removeTopic :: "ObjectId \<Rightarrow> string \<Rightarrow> collection \<Rightarrow> (error + string) \<times> collection" where
  "removeTopic eid topic c =
     (case readOne c eid of
        None \<Rightarrow> (Inl (NotFoundError ''Event does not exist.''), c)
      | Some event \<Rightarrow>
          if \<not> string_includes topic topic then (Inl (NotAllowedError ''Topic does not exist.''), c)
          else (let topic_idx = indexOf (topics event) topic
                in (Inr ''Successfully removed topic from event.'',
                    updateOne c eid [(''topics'', VStrs (array_splice (topics event) topic_idx 1))])))"

definition addAmenity :: "ObjectId \<Rightarrow> string \<Rightarrow> collection \<Rightarrow> (error + string) \<times> collection" where
  "addAmenity eid amenity c =
     (case readOne c eid of
        None \<Rightarrow> (Inl (NotFoundError ''Event does not exist.''), c)
      | Some event \<Rightarrow>
          if array_includes (amenities event) amenity
          then (Inl (NotAllowedError ''Amenity already exists.''), c)
          else (Inr ''Successfully added amenity to event.'',
                updateOne c eid [(''amenities'', VStrs (push (amenities event) amenity))]))"

definition removeAmenity :: "ObjectId \<Rightarrow> string \<Rightarrow> collection \<Rightarrow> (error + string) \<times> collection" where
  "removeAmenity eid amenity c =
     (case readOne c eid of
        None \<Rightarrow> (Inl (NotFoundError ''Event does not exist.''), c)
      | Some event \<Rightarrow>
          if \<not> string_includes amenity amenity
          then (Inl (NotAllowedError ''Amenity does not exist.''), c)
          else (let amenity_idx = indexOf (amenities event) amenity
                in (Inr ''Successfully removed amenity from event.'',
                    updateOne c eid [(''amenities'', VStrs (array_splice (amenities event) amenity_idx 1))])))"

definition addAccommodation :: "ObjectId \<Rightarrow> string \<Rightarrow> collection \<Rightarrow> (error + string) \<times> collection" where
  "addAccommodation eid accommodation c =
     (case readOne c eid of
        None \<Rightarrow> (Inl (NotFoundError ''Event does not exist.''), c)
      | Some event \<Rightarrow>
          if array_includes (accommodations event) accommodation
          then (Inl (NotAllowedError ''Accommodation already exists.''), c)
          else (Inr ''Successfully added accommodation to event.'',
                updateOne c eid
                  [(''accommodations'', VStrs (push (accommodations event) accommodation))]))"

definition removeAccommodation :: "ObjectId \<Rightarrow> string \<Rightarrow> collection \<Rightarrow> (error + string) \<times> collection" where
  "removeAccommodation eid accommodation c =
     (case readOne c eid of
        None \<Rightarrow> (Inl (NotFoundError ''Event does not exist.''), c)
      | Some event \<Rightarrow>
          if \<not> string_includes accommodation accommodation
          then (Inl (NotAllowedError ''Accommodation does not exist.''), c)
          else (let accommodation_idx = indexOf (accommodations event) accommodation
                in (Inr ''Successfully removed accommodation from event.'',
                    updateOne c eid
                      [(''accommodations'',
                        VStrs (array_splice (accommodations event) accommodation_idx 1))])))"

section \<open>Scenarios\<close>

text \<open>
  An event with the given lists, for stating what an operation does to a document
  that holds them.
\<close>

definition event_with ::
  "ObjectId \<Rightarrow> string list \<Rightarrow> ObjectId list \<Rightarrow> ObjectId list \<Rightarrow> EventDoc" where
  "event_with h ts ins ats =
     \<lparr>host = h, title = ''t'', description = ''d'', location = ''l'', ageReq = 18,
      capacity = 50, topics = ts, amenities = ts, accommodations = ts,
      interested = ins, attending = ats\<rparr>"

definition holding :: "ObjectId \<Rightarrow> EventDoc \<Rightarrow> collection" where
  "holding eid d = \<lparr>docs = [eid \<mapsto> d], next_id = eid + 1\<rparr>"

text \<open>Sequences of RSVP calls on one event, each outcome dropped, the collection kept.\<close>

datatype rsvp =
    IndicateInterest ObjectId
  | RemoveInterest ObjectId
  | IndicateAttendance ObjectId
  | RemoveAttendance ObjectId

fun rsvp_call :: "ObjectId \<Rightarrow> collection \<Rightarrow> rsvp \<Rightarrow> collection" where
  "rsvp_call eid c (IndicateInterest p) = snd (indicateInterest p eid c)"
| "rsvp_call eid c (RemoveInterest p) = snd (removeInterest p eid c)"
| "rsvp_call eid c (IndicateAttendance p) = snd (indicateAttendance p eid c)"
| "rsvp_call eid c (RemoveAttendance p) = snd (removeAttendance p eid c)"

definition rsvp_calls :: "ObjectId \<Rightarrow> rsvp list \<Rightarrow> collection \<Rightarrow> collection" where
  "rsvp_calls eid calls c = foldl (rsvp_call eid) c calls"

text \<open>No identity is in both lists of the document.\<close>

definition exclusive :: "EventDoc \<Rightarrow> bool" where
  "exclusive ev = (set (interested ev) \<inter> set (attending ev) = {})"

section \<open>Properties\<close>

subsection \<open>The collection and the array methods\<close>

lemma string_includes_self: "string_includes s s"
  by (cases s) simp_all

lemma readOne_holding: "readOne (holding eid d) eid = Some d"
  by (simp add: readOne_def holding_def)

lemma readOne_create:
  "readOne (snd (create h t d l a cap empty_collection)) 0 =
     Some \<lparr>host = h, title = t, description = d, location = l, ageReq = a, capacity = cap,
           topics = [], amenities = [], accommodations = [], interested = [], attending = []\<rparr>"
  by (simp add: create_def createOne_def readOne_def empty_collection_def)

lemma readOne_rsvp_write:
  "readOne c eid = Some ev \<Longrightarrow>
     readOne (rsvp_write c eid xs ys) eid
       = Some (ev\<lparr>interested := map bytes_of xs, attending := map bytes_of ys\<rparr>)"
  by (simp add: rsvp_write_def updateOne_def readOne_def)

lemma readOne_updateOne:
  "readOne c eid = Some ev \<Longrightarrow> readOne (updateOne c eid upd) eid = Some (foldl set_field ev upd)"
  by (simp add: updateOne_def readOne_def)

lemma updateOne_missing: "readOne c eid = None \<Longrightarrow> updateOne c eid upd = c"
  by (simp add: updateOne_def readOne_def)

lemma deleteOne_missing: "readOne c eid = None \<Longrightarrow> deleteOne c eid = c"
  by (simp add: deleteOne_def readOne_def fun_upd_idem)

lemma indexOf_absent: "x \<notin> set xs \<Longrightarrow> indexOf xs x = - 1"
  by (induction xs) auto

lemma indexOf_present: "x \<in> set xs \<Longrightarrow> 0 \<le> indexOf xs x \<and> indexOf xs x < int (length xs)"
  by (induction xs) (auto simp: Let_def)

lemma array_splice_last: "array_splice xs (- 1) 1 = butlast xs"
proof (cases xs rule: rev_cases)
  case Nil
  then show ?thesis by (simp add: array_splice_def)
next
  case (snoc ys y)
  then show ?thesis by (simp add: array_splice_def)
qed

lemma array_splice_first_match:
  "x \<in> set xs \<Longrightarrow> array_splice xs (indexOf xs x) 1 = remove1 x xs"
proof (induction xs)
  case Nil
  then show ?case by simp
next
  case (Cons y ys)
  show ?case
  proof (cases "y = x")
    case True
    then show ?thesis by (simp add: array_splice_def)
  next
    case False
    with Cons.prems have mem: "x \<in> set ys" by simp
    from indexOf_present [OF mem] have rng: "0 \<le> indexOf ys x" "indexOf ys x < int (length ys)"
      by simp_all
    from Cons.IH [OF mem] rng have "take (nat (indexOf ys x)) ys @ drop (Suc (nat (indexOf ys x))) ys = remove1 x ys"
      by (simp add: array_splice_def min_def Let_def)
    moreover from rng have "nat (indexOf ys x + 1) = Suc (nat (indexOf ys x))" by simp
    ultimately show ?thesis using False rng
      by (simp add: array_splice_def Let_def min_def)
  qed
qed

subsection \<open>Decoded arrays never hold the caller's object\<close>

lemma bytes_of_decoded: "map bytes_of (decoded f vs) = vs"
proof -
  have "bytes_of \<circ> (\<lambda>(i, v). Decoded f i v) = snd"
    by (rule ext) (simp add: case_prod_unfold)
  then have "map bytes_of (decoded f vs) = map snd (enumerate 0 vs)"
    by (simp add: decoded_def)
  then show ?thesis by simp
qed

lemma Passed_not_decoded: "Passed p \<notin> set (decoded f vs)"
  by (auto simp: decoded_def)

lemma indexOf_decoded: "indexOf (decoded f vs) (Passed p) = - 1"
  by (rule indexOf_absent) (rule Passed_not_decoded)

lemma includes_decoded: "array_includes (decoded f vs) (Passed p) = False"
  by (simp add: array_includes_def Passed_not_decoded)

lemma butlast_decoded: "map bytes_of (array_splice (decoded f vs) (- 1) 1) = butlast vs"
  by (simp add: array_splice_last map_butlast bytes_of_decoded del: One_nat_def)

subsection \<open>What each guard answers and what each RSVP mutator writes\<close>

lemma isInterested_existing:
  "readOne c eid = Some ev \<Longrightarrow>
     isInterested c p eid = Inl (NotFoundError ''Person not interested in event.'')"
  by (simp add: isInterested_def includes_decoded)

lemma isAttending_existing:
  "readOne c eid = Some ev \<Longrightarrow>
     isAttending c p eid = Inl (NotFoundError ''Person not attending event.'')"
  by (simp add: isAttending_def includes_decoded)

lemma isNotInterested_existing: "readOne c eid = Some ev \<Longrightarrow> isNotInterested c p eid = Inr ()"
  by (simp add: isNotInterested_def includes_decoded)

lemma isNotAttending_existing: "readOne c eid = Some ev \<Longrightarrow> isNotAttending c p eid = Inr ()"
  by (simp add: isNotAttending_def includes_decoded)

lemma indicateInterest_existing:
  "readOne c eid = Some ev \<Longrightarrow>
     fst (indicateInterest p eid c) = Inr ''Successfully indicated interest in event.''
     \<and> readOne (snd (indicateInterest p eid c)) eid
         = Some (ev\<lparr>interested := interested ev @ [p], attending := attending ev\<rparr>)"
  by (simp add: indicateInterest_def unawaited_def Let_def indexOf_decoded readOne_rsvp_write
        push_def bytes_of_decoded)

lemma removeInterest_existing:
  "readOne c eid = Some ev \<Longrightarrow>
     fst (removeInterest p eid c) = Inr ''Successfully removed interest in event.''
     \<and> readOne (snd (removeInterest p eid c)) eid
         = Some (ev\<lparr>interested := butlast (interested ev), attending := attending ev\<rparr>)"
  by (simp add: removeInterest_def unawaited_def Let_def indexOf_decoded readOne_rsvp_write
        butlast_decoded bytes_of_decoded del: One_nat_def)

lemma indicateAttendance_existing:
  "readOne c eid = Some ev \<Longrightarrow>
     fst (indicateAttendance p eid c) = Inr ''Successfully indicated attendance for event.''
     \<and> readOne (snd (indicateAttendance p eid c)) eid
         = Some (ev\<lparr>interested := interested ev, attending := attending ev @ [p]\<rparr>)"
  by (simp add: indicateAttendance_def unawaited_def Let_def indexOf_decoded readOne_rsvp_write
        push_def bytes_of_decoded)

lemma removeAttendance_existing:
  "readOne c eid = Some ev \<Longrightarrow>
     fst (removeAttendance p eid c) = Inr ''Successfully removed attendance for event.''
     \<and> readOne (snd (removeAttendance p eid c)) eid
         = Some (ev\<lparr>interested := interested ev, attending := attending ev @ [p]\<rparr>)"
  by (simp add: removeAttendance_def unawaited_def Let_def indexOf_decoded readOne_rsvp_write
        push_def bytes_of_decoded)

text \<open>
  Neither attendance mutator takes anybody out of \<open>interested\<close>, and
  \<^verbatim>\<open>indicateInterest\<close> takes nobody out of \<open>attending\<close>.
\<close>

lemma indicateAttendance_keeps_interested:
  "readOne c eid = Some ev \<Longrightarrow>
     map_option interested (readOne (snd (indicateAttendance p eid c)) eid) = Some (interested ev)"
  by (simp add: indicateAttendance_existing)

lemma removeAttendance_keeps_interested:
  "readOne c eid = Some ev \<Longrightarrow>
     map_option interested (readOne (snd (removeAttendance p eid c)) eid) = Some (interested ev)"
  by (simp add: removeAttendance_existing)

lemma indicateInterest_keeps_attending:
  "readOne c eid = Some ev \<Longrightarrow>
     map_option attending (readOne (snd (indicateInterest p eid c)) eid) = Some (attending ev)"
  by (simp add: indicateInterest_existing)

lemma fresh_event:
  "readOne (snd (create 1 ''t'' ''d'' ''l'' 18 50 empty_collection)) 0 = Some (event_with 1 [] [] [])"
  by (simp add: readOne_create event_with_def)

text \<open>
  Claim C1. After any sequence of RSVP operations on a freshly created event no identity
  should be in both \<open>interested\<close> and \<open>attending\<close>, and \<open>indicateInterest(p, e)\<close> followed
  by \<open>indicateAttendance(p, e)\<close> should leave \<open>p\<close> in \<open>attending\<close> only.
  \<^verbatim>\<open>indicateAttendance\<close> looks for the object \<open>person\<close> in the array \<open>interested\<close> it has
  just read, where it cannot be, and would splice \<open>attending\<close>, not \<open>interested\<close>, had it
  found it: \<open>interested\<close> is written back as read. On the event created with capacity
  50 and minimum age 18, person 2 indicating interest and then attendance ends in both
  lists, and so it does when person 3 is interested first.
\<close>

theorem interest_then_attendance:
  "readOne (rsvp_calls 0 [IndicateInterest 2, IndicateAttendance 2]
              (snd (create 1 ''t'' ''d'' ''l'' 18 50 empty_collection))) 0
     = Some (event_with 1 [] [2] [2])
   \<and> exclusive (event_with 1 [] [2] [2]) = False
   \<and> readOne (rsvp_calls 0 [IndicateInterest 3, IndicateInterest 2, IndicateAttendance 2]
              (snd (create 1 ''t'' ''d'' ''l'' 18 50 empty_collection))) 0
     = Some (event_with 1 [] [3, 2] [2])
   \<and> exclusive (event_with 1 [] [3, 2] [2]) = False"
  by (simp add: rsvp_calls_def indicateInterest_existing indicateAttendance_existing fresh_event)
     (simp add: event_with_def exclusive_def)

text \<open>
  Claim C2. \<open>removeAttendance(p, e)\<close> should fail with NotFound when \<open>p\<close> is not attending
  and otherwise take \<open>p\<close> out of \<open>attending\<close>. The call of \<^verbatim>\<open>isAttending\<close> is not awaited,
  the index found in \<open>attending\<close> is not used, and the body pushes \<open>p\<close> onto \<open>attending\<close>:
  for person 2 attending event 7 the call succeeds with 2 twice in \<open>attending\<close>; for
  person 2 not attending, the guard by itself gives NotFound, yet the call succeeds and
  adds 2 to \<open>attending\<close>.
\<close>

theorem removeAttendance_appends:
  "fst (removeAttendance 2 7 (holding 7 (event_with 1 [] [] [2])))
     = Inr ''Successfully removed attendance for event.''
   \<and> readOne (snd (removeAttendance 2 7 (holding 7 (event_with 1 [] [] [2])))) 7
     = Some (event_with 1 [] [] [2, 2])
   \<and> isAttending (holding 7 (event_with 1 [] [] [4])) 2 7
     = Inl (NotFoundError ''Person not attending event.'')
   \<and> fst (removeAttendance 2 7 (holding 7 (event_with 1 [] [] [4])))
     = Inr ''Successfully removed attendance for event.''
   \<and> readOne (snd (removeAttendance 2 7 (holding 7 (event_with 1 [] [] [4])))) 7
     = Some (event_with 1 [] [] [4, 2])"
  by (simp add: removeAttendance_existing isAttending_existing readOne_holding)
     (simp add: event_with_def)

text \<open>
  Claim C3. Each RSVP transition called with the host of the event should fail with
  NotAllowed and leave the event as it was. \<^verbatim>\<open>isNotHost\<close> accepts the host (it rejects
  everybody else), and its promise is not awaited in any of the four mutators: on
  event 7 hosted by person 1, with person 3 interested and person 4 attending, each of
  the four calls by the host succeeds and writes the event.
\<close>

theorem host_may_rsvp:
  "isNotHost (holding 7 (event_with 1 [] [3] [4])) 1 7 = Inr ()
   \<and> fst (indicateInterest 1 7 (holding 7 (event_with 1 [] [3] [4])))
       = Inr ''Successfully indicated interest in event.''
   \<and> readOne (snd (indicateInterest 1 7 (holding 7 (event_with 1 [] [3] [4])))) 7
       = Some (event_with 1 [] [3, 1] [4])
   \<and> fst (removeInterest 1 7 (holding 7 (event_with 1 [] [3, 1] [4])))
       = Inr ''Successfully removed interest in event.''
   \<and> readOne (snd (removeInterest 1 7 (holding 7 (event_with 1 [] [3, 1] [4])))) 7
       = Some (event_with 1 [] [3] [4])
   \<and> fst (indicateAttendance 1 7 (holding 7 (event_with 1 [] [3] [4])))
       = Inr ''Successfully indicated attendance for event.''
   \<and> readOne (snd (indicateAttendance 1 7 (holding 7 (event_with 1 [] [3] [4])))) 7
       = Some (event_with 1 [] [3] [4, 1])
   \<and> fst (removeAttendance 1 7 (holding 7 (event_with 1 [] [3] [4, 1])))
       = Inr ''Successfully removed attendance for event.''
   \<and> readOne (snd (removeAttendance 1 7 (holding 7 (event_with 1 [] [3] [4, 1])))) 7
       = Some (event_with 1 [] [3] [4, 1, 1])"
  by (simp add: indicateInterest_existing removeInterest_existing indicateAttendance_existing
        removeAttendance_existing readOne_holding isNotHost_def)
     (simp add: event_with_def)

text \<open>
  Claim C4. \<open>removeInterest(p, e)\<close> for \<open>p\<close> not in \<open>interested\<close> should fail with NotFound
  and change nothing. The call of \<^verbatim>\<open>isInterested\<close> is not awaited, \<^verbatim>\<open>indexOf\<close> gives \<open>-1\<close>
  and \<^verbatim>\<open>splice(-1, 1)\<close> deletes the last entry: for person 2 on event 7, where only
  person 3 is interested, the guard by itself gives NotFound, yet the call succeeds
  and person 3 is removed from \<open>interested\<close>.
\<close>

theorem removeInterest_not_interested:
  "isInterested (holding 7 (event_with 1 [] [3] [4])) 2 7
     = Inl (NotFoundError ''Person not interested in event.'')
   \<and> fst (removeInterest 2 7 (holding 7 (event_with 1 [] [3] [4])))
     = Inr ''Successfully removed interest in event.''
   \<and> readOne (snd (removeInterest 2 7 (holding 7 (event_with 1 [] [3] [4])))) 7
     = Some (event_with 1 [] [] [4])"
  by (simp add: removeInterest_existing isInterested_existing readOne_holding)
     (simp add: event_with_def)

subsection \<open>The tag mutators\<close>

lemma addTopic_existing:
  "readOne c eid = Some ev \<Longrightarrow>
     addTopic eid t c = (Inl (NotAllowedError ''Topic already exists.''), c)"
  by (simp add: addTopic_def string_includes_self)

lemma removeTopic_existing:
  "readOne c eid = Some ev \<Longrightarrow>
     removeTopic eid t c =
       (Inr ''Successfully removed topic from event.'',
        updateOne c eid [(''topics'', VStrs (array_splice (topics ev) (indexOf (topics ev) t) 1))])"
  by (simp add: removeTopic_def string_includes_self)

lemma removeAmenity_existing:
  "readOne c eid = Some ev \<Longrightarrow>
     removeAmenity eid t c =
       (Inr ''Successfully removed amenity from event.'',
        updateOne c eid
          [(''amenities'', VStrs (array_splice (amenities ev) (indexOf (amenities ev) t) 1))])"
  by (simp add: removeAmenity_def string_includes_self)

lemma removeAccommodation_existing:
  "readOne c eid = Some ev \<Longrightarrow>
     removeAccommodation eid t c =
       (Inr ''Successfully removed accommodation from event.'',
        updateOne c eid
          [(''accommodations'',
            VStrs (array_splice (accommodations ev) (indexOf (accommodations ev) t) 1))])"
  by (simp add: removeAccommodation_def string_includes_self)

text \<open>
  No topic is ever added. A remove mutator deletes the first match of a tag that is
  present, and the last entry when the tag is absent.
\<close>

lemma addTopic_never_succeeds: "fst (addTopic eid t c) \<noteq> Inr m"
  by (cases "readOne c eid") (simp_all add: addTopic_def string_includes_self)

lemma removeTopic_absent:
  "readOne c eid = Some ev \<Longrightarrow> t \<notin> set (topics ev) \<Longrightarrow>
     map_option topics (readOne (snd (removeTopic eid t c)) eid) = Some (butlast (topics ev))"
  by (simp add: removeTopic_existing readOne_updateOne indexOf_absent array_splice_last
        del: One_nat_def)

lemma removeAmenity_absent:
  "readOne c eid = Some ev \<Longrightarrow> t \<notin> set (amenities ev) \<Longrightarrow>
     map_option amenities (readOne (snd (removeAmenity eid t c)) eid)
       = Some (butlast (amenities ev))"
  by (simp add: removeAmenity_existing readOne_updateOne indexOf_absent array_splice_last
        del: One_nat_def)

lemma removeAccommodation_absent:
  "readOne c eid = Some ev \<Longrightarrow> t \<notin> set (accommodations ev) \<Longrightarrow>
     map_option accommodations (readOne (snd (removeAccommodation eid t c)) eid)
       = Some (butlast (accommodations ev))"
  by (simp add: removeAccommodation_existing readOne_updateOne indexOf_absent array_splice_last
        del: One_nat_def)

lemma removeTopic_present:
  "readOne c eid = Some ev \<Longrightarrow> t \<in> set (topics ev) \<Longrightarrow>
     map_option topics (readOne (snd (removeTopic eid t c)) eid) = Some (remove1 t (topics ev))"
  by (simp add: removeTopic_existing readOne_updateOne array_splice_first_match del: One_nat_def)

lemma removeAmenity_present:
  "readOne c eid = Some ev \<Longrightarrow> t \<in> set (amenities ev) \<Longrightarrow>
     map_option amenities (readOne (snd (removeAmenity eid t c)) eid)
       = Some (remove1 t (amenities ev))"
  by (simp add: removeAmenity_existing readOne_updateOne array_splice_first_match del: One_nat_def)

lemma removeAccommodation_present:
  "readOne c eid = Some ev \<Longrightarrow> t \<in> set (accommodations ev) \<Longrightarrow>
     map_option accommodations (readOne (snd (removeAccommodation eid t c)) eid)
       = Some (remove1 t (accommodations ev))"
  by (simp add: removeAccommodation_existing readOne_updateOne array_splice_first_match del: One_nat_def)

text \<open>
  Claim C5. \<open>addTopic(e, t)\<close> for \<open>t\<close> not among the topics should succeed and append
  \<open>t\<close>. The test is \<^verbatim>\<open>topic.includes(topic)\<close>, a string containing itself, where
  \<^verbatim>\<open>addAmenity\<close> and \<^verbatim>\<open>addAccommodation\<close> test the array: adding \<open>music\<close> to event 7,
  which has no topics, fails with NotAllowed, and after a second call the topics are
  still empty.
\<close>

theorem addTopic_rejects_new_topic:
  "array_includes (topics (event_with 1 [] [] [])) ''music'' = False
   \<and> addTopic 7 ''music'' (holding 7 (event_with 1 [] [] []))
       = (Inl (NotAllowedError ''Topic already exists.''), holding 7 (event_with 1 [] [] []))
   \<and> map_option topics
         (readOne (snd (addTopic 7 ''music''
                         (snd (addTopic 7 ''music'' (holding 7 (event_with 1 [] [] [])))))) 7)
       = Some []"
  by (simp add: addTopic_existing readOne_holding)
     (simp add: event_with_def array_includes_def)

text \<open>
  Claim C6. \<^verbatim>\<open>removeTopic\<close>, \<^verbatim>\<open>removeAmenity\<close> and \<^verbatim>\<open>removeAccommodation\<close> should fail
  with NotAllowed for a tag that is absent. Each tests the tag string against itself,
  so none of them ever rejects; \<^verbatim>\<open>indexOf\<close> then gives \<open>-1\<close> and \<^verbatim>\<open>splice(-1, 1)\<close> deletes
  the last entry: removing \<open>x\<close> from the tags \<open>a, b\<close> of event 7 succeeds and deletes \<open>b\<close>.
\<close>

theorem remove_absent_tag:
  "array_includes [''a'', ''b''] ''x'' = False
   \<and> fst (removeTopic 7 ''x'' (holding 7 (event_with 1 [''a'', ''b''] [] [])))
       = Inr ''Successfully removed topic from event.''
   \<and> map_option topics
         (readOne (snd (removeTopic 7 ''x'' (holding 7 (event_with 1 [''a'', ''b''] [] [])))) 7)
       = Some [''a'']
   \<and> fst (removeAmenity 7 ''x'' (holding 7 (event_with 1 [''a'', ''b''] [] [])))
       = Inr ''Successfully removed amenity from event.''
   \<and> map_option amenities
         (readOne (snd (removeAmenity 7 ''x'' (holding 7 (event_with 1 [''a'', ''b''] [] [])))) 7)
       = Some [''a'']
   \<and> fst (removeAccommodation 7 ''x'' (holding 7 (event_with 1 [''a'', ''b''] [] [])))
       = Inr ''Successfully removed accommodation from event.''
   \<and> map_option accommodations
         (readOne (snd (removeAccommodation 7 ''x'' (holding 7 (event_with 1 [''a'', ''b''] [] [])))) 7)
       = Some [''a'']"
  by (simp add: removeTopic_existing removeAmenity_existing removeAccommodation_existing
        readOne_holding readOne_updateOne)
     (simp add: event_with_def array_splice_def array_includes_def)

subsection \<open>The generic update and delete\<close>

lemma sanitizeUpdate_keys:
  "sanitizeUpdate upd =
     (if ''host'' \<in> set (map fst upd)
      then Inl (NotAllowedError (''Cannot update '' @ [CHR 0x27] @ ''host'' @ [CHR 0x27] @ '' field!''))
      else Inr ())"
proof (induction upd)
  case Nil
  then show ?case by simp
next
  case (Cons kv rest)
  obtain key v where kv: "kv = (key, v)" by (cases kv)
  show ?case unfolding kv using Cons.IH
    by (simp add: array_includes_def prohibitedUpdates_def)
qed

text \<open>
  Claim C7. For every event id and every value \<open>X\<close>, \<open>update(id, {host: X})\<close> fails with
  the NotAllowed error for the field \<open>host\<close>, and the collection is left as it was.
\<close>

theorem update_host_forbidden:
  "update eid [(''host'', X)] c =
     (Inl (NotAllowedError (''Cannot update '' @ [CHR 0x27] @ ''host'' @ [CHR 0x27] @ '' field!'')), c)"
  by (simp add: update_def array_includes_def prohibitedUpdates_def)

text \<open>
  Claim C8, as stated: \<open>update(id, partial)\<close> and \<open>delete(id)\<close> fail with NotFound for an
  id that resolves to no record. Neither reads the record: in a collection that holds
  event 7 only, updating the title of event 8 and deleting event 8 both return their
  success message.
\<close>

theorem update_delete_missing_counterexample:
  "readOne (holding 7 (event_with 1 [] [] [])) 8 = None
   \<and> update 8 [(''title'', VStr ''x'')] (holding 7 (event_with 1 [] [] []))
       = (Inr ''Event successfully updated!'', holding 7 (event_with 1 [] [] []))
   \<and> delete 8 (holding 7 (event_with 1 [] [] []))
       = (Inr ''Event deleted successfully!'', holding 7 (event_with 1 [] [] []))"
proof -
  have missing: "readOne (holding 7 (event_with 1 [] [] [])) 8 = None"
    by (simp add: readOne_def holding_def)
  show ?thesis
    by (simp add: missing update_def delete_def updateOne_missing [OF missing]
          deleteOne_missing [OF missing] array_includes_def prohibitedUpdates_def)
qed

text \<open>
  Claim C8, amended. For an id that resolves to no record, \<open>delete(id)\<close> returns its
  success message, and \<open>update(id, partial)\<close> returns its success message unless the
  partial has the key \<open>host\<close>, when it fails with NotAllowed; the collection is left as
  it was. NotFound for a missing event is what the guard \<^verbatim>\<open>isHost\<close> raises, which
  neither of the two calls.
\<close>

theorem update_delete_missing:
  assumes "readOne c eid = None"
  shows "delete eid c = (Inr ''Event deleted successfully!'', c)
       \<and> update eid upd c =
           (if ''host'' \<in> set (map fst upd)
            then (Inl (NotAllowedError
                         (''Cannot update '' @ [CHR 0x27] @ ''host'' @ [CHR 0x27] @ '' field!'')), c)
            else (Inr ''Event successfully updated!'', c))
       \<and> isHost c h eid = Inl (event_missing eid)"
  using assms
  by (simp add: delete_def update_def sanitizeUpdate_keys updateOne_missing deleteOne_missing
        isHost_def)

text \<open>The amended claim C8 on the empty collection and id 5.\<close>

theorem update_delete_missing_witness:
  "readOne empty_collection 5 = None
   \<and> delete 5 empty_collection = (Inr ''Event deleted successfully!'', empty_collection)
   \<and> update 5 [(''capacity'', VNum 10)] empty_collection
       = (Inr ''Event successfully updated!'', empty_collection)
   \<and> isHost empty_collection 1 5
       = Inl (NotFoundError ''Event 000000000000000000000005 does not exist!'')"
proof -
  have missing: "readOne empty_collection 5 = None"
    by (simp add: readOne_def empty_collection_def)
  have str: "toString 5 = ''000000000000000000000005''"
    by code_simp
  show ?thesis
    using update_delete_missing [OF missing, of "[(''capacity'', VNum 10)]" 1] missing
    by (simp add: event_missing_def str)
qed

text \<open>
  Claim C10. Only the key \<open>host\<close> is prohibited: for every partial without that key
  (so also one with \<open>interested\<close> or \<open>attending\<close>) \<^verbatim>\<open>sanitizeUpdate\<close> passes and \<open>update\<close>
  hands the partial to the collection unchanged, which overwrites the fields it names.
  No RSVP guard is involved.
\<close>

theorem update_overwrites_rsvp_lists:
  assumes "''host'' \<notin> set (map fst upd)"
  shows "sanitizeUpdate upd = Inr ()
       \<and> update eid upd c = (Inr ''Event successfully updated!'', updateOne c eid upd)
       \<and> readOne (snd (update eid upd c)) eid
           = map_option (\<lambda>ev. foldl set_field ev upd) (readOne c eid)"
proof -
  from assms have ok: "sanitizeUpdate upd = Inr ()"
    by (simp add: sanitizeUpdate_keys)
  have stored: "readOne (updateOne c eid upd) eid
                  = map_option (\<lambda>ev. foldl set_field ev upd) (readOne c eid)"
    by (cases "readOne c eid") (simp_all add: updateOne_missing readOne_updateOne)
  from ok stored show ?thesis
    by (simp add: update_def)
qed

text \<open>
  Claim C10 on event 7 hosted by person 1: one update puts the host and person 2 into
  both lists.
\<close>

theorem update_overwrites_rsvp_lists_witness:
  "''host'' \<notin> set (map fst [(''interested'', VIds [1, 2]), (''attending'', VIds [1, 2])])
   \<and> fst (update 7 [(''interested'', VIds [1, 2]), (''attending'', VIds [1, 2])]
              (holding 7 (event_with 1 [] [] [])))
       = Inr ''Event successfully updated!''
   \<and> readOne (snd (update 7 [(''interested'', VIds [1, 2]), (''attending'', VIds [1, 2])]
                       (holding 7 (event_with 1 [] [] [])))) 7
       = Some (event_with 1 [] [1, 2] [1, 2])"
proof -
  have k: "''host'' \<notin> set (map fst [(''interested'', VIds [1, 2]), (''attending'', VIds [1, 2])])"
    by simp
  from update_overwrites_rsvp_lists [OF k, of 7 "holding 7 (event_with 1 [] [] [])"] k
  show ?thesis
    by (auto simp add: readOne_holding event_with_def)
qed

subsection \<open>Address lookup\<close>

lemma get_prop_not_NotFound: "get_prop v k \<noteq> Inl (NotFoundError m)"
  by (cases v) simp_all

text \<open>
  Claim C9, as stated: for a provider answering with one candidate at lat 37.42 and
  lng -122.08 the lookup returns \<open>{latitude: 37.42, longitude: -122.08}\<close>. The code
  returns the candidate's \<^verbatim>\<open>geometry.location\<close> object as the provider sent it, whose
  keys are \<open>lat\<close> and \<open>lng\<close>; it has no \<open>latitude\<close>.
\<close>

theorem getAddressLocation_counterexample:
  "getAddressLocation (stub_provider (JObj [(''results'', JArr [candidate 37.42 (- 122.08)])]))
       (Some ''key'') ''1600 Amphitheatre Parkway''
     = Inr (JObj [(''lat'', JNum 37.42), (''lng'', JNum (- 122.08))])
   \<and> getAddressLocation (stub_provider (JObj [(''results'', JArr [candidate 37.42 (- 122.08)])]))
       (Some ''key'') ''1600 Amphitheatre Parkway''
     \<noteq> Inr (JObj [(''latitude'', JNum 37.42), (''longitude'', JNum (- 122.08))])
   \<and> get_prop (JObj [(''lat'', JNum 37.42), (''lng'', JNum (- 122.08))]) ''latitude''
     = Inr JUndefined"
  by (simp add: getAddressLocation_def stub_provider_def candidate_def)

text \<open>
  Claim C9, amended. When the provider answers with a body whose \<open>results\<close> is an array,
  the lookup fails with NotFound exactly when the array is empty, and otherwise returns
  the \<^verbatim>\<open>geometry.location\<close> of the first candidate unchanged (for a candidate of the
  provider's shape, the object with keys \<open>lat\<close> and \<open>lng\<close>).
\<close>

theorem getAddressLocation_first_candidate:
  assumes "fetch_json (geocodingUrl myAPIKey address) = Inr body"
      and "get_prop body ''results'' = Inr (JArr cands)"
  shows "((getAddressLocation fetch_json myAPIKey address
             = Inl (NotFoundError ''Address Not Found'')) = (cands = []))
       \<and> getAddressLocation fetch_json myAPIKey address =
           (case cands of
              [] \<Rightarrow> Inl (NotFoundError ''Address Not Found'')
            | first # rest \<Rightarrow>
                (case get_prop first ''geometry'' of
                   Inl e \<Rightarrow> Inl e
                 | Inr geometry \<Rightarrow> get_prop geometry ''location''))"
proof (cases cands)
  case Nil
  with assms show ?thesis by (simp add: getAddressLocation_def)
next
  case (Cons x xs)
  with assms have "getAddressLocation fetch_json myAPIKey address =
      (case get_prop x ''geometry'' of Inl e \<Rightarrow> Inl e | Inr g \<Rightarrow> get_prop g ''location'')"
    by (simp add: getAddressLocation_def)
  with Cons show ?thesis
    using get_prop_not_NotFound by (auto split: sum.splits)
qed

text \<open>
  The amended claim C9 on a provider stub with two candidates, and on one with none.
\<close>

theorem getAddressLocation_first_candidate_witness:
  "stub_provider (JObj [(''results'', JArr [candidate 37.42 (- 122.08), candidate 1 2])])
       (geocodingUrl None ''1600 Amphitheatre Parkway'')
     = Inr (JObj [(''results'', JArr [candidate 37.42 (- 122.08), candidate 1 2])])
   \<and> get_prop (JObj [(''results'', JArr [candidate 37.42 (- 122.08), candidate 1 2])]) ''results''
     = Inr (JArr [candidate 37.42 (- 122.08), candidate 1 2])
   \<and> getAddressLocation
       (stub_provider (JObj [(''results'', JArr [candidate 37.42 (- 122.08), candidate 1 2])]))
       None ''1600 Amphitheatre Parkway''
     = Inr (JObj [(''lat'', JNum 37.42), (''lng'', JNum (- 122.08))])
   \<and> stub_provider (JObj [(''results'', JArr [])]) (geocodingUrl (Some ''key'') ''nowhere'')
     = Inr (JObj [(''results'', JArr [])])
   \<and> get_prop (JObj [(''results'', JArr [])]) ''results'' = Inr (JArr [])
   \<and> getAddressLocation (stub_provider (JObj [(''results'', JArr [])])) (Some ''key'') ''nowhere''
     = Inl (NotFoundError ''Address Not Found'')"
proof -
  let ?body = "JObj [(''results'', JArr [candidate 37.42 (- 122.08), candidate 1 2])]"
  let ?none = "JObj [(''results'', JArr [])]"
  have f: "stub_provider ?body (geocodingUrl None ''1600 Amphitheatre Parkway'') = Inr ?body"
    by (simp add: stub_provider_def)
  have r: "get_prop ?body ''results'' = Inr (JArr [candidate 37.42 (- 122.08), candidate 1 2])"
    by simp
  have g: "get_prop (candidate 37.42 (- 122.08)) ''geometry''
             = Inr (JObj [(''location'', JObj [(''lat'', JNum 37.42), (''lng'', JNum (- 122.08))])])"
    by (simp add: candidate_def)
  have f0: "stub_provider ?none (geocodingUrl (Some ''key'') ''nowhere'') = Inr ?none"
    by (simp add: stub_provider_def)
  have r0: "get_prop ?none ''results'' = Inr (JArr [])"
    by simp
  from getAddressLocation_first_candidate
         [where fetch_json = "stub_provider ?body" and myAPIKey = None
            and address = "''1600 Amphitheatre Parkway''" and body = ?body
            and cands = "[candidate 37.42 (- 122.08), candidate 1 2]", OF f r]
       g
  have first: "getAddressLocation (stub_provider ?body) None ''1600 Amphitheatre Parkway''
                 = Inr (JObj [(''lat'', JNum 37.42), (''lng'', JNum (- 122.08))])"
    by simp
  from getAddressLocation_first_candidate
         [where fetch_json = "stub_provider ?none" and myAPIKey = "Some ''key''"
            and address = "''nowhere''" and body = ?none and cands = "[]", OF f0 r0]
  have empty: "getAddressLocation (stub_provider ?none) (Some ''key'') ''nowhere''
                 = Inl (NotFoundError ''Address Not Found'')"
    by simp
  from f r first f0 r0 empty show ?thesis
    by simp
qed

end
